theory Spec2Isabelle
  imports Main
begin

section \<open>The filesystem seen by esky.fstransact\<close>

text \<open>
  The module \<^verbatim>\<open>esky/fstransact.py\<close> works on the filesystem through a handful of calls of
  the Python library: \<^verbatim>\<open>os.stat\<close>, \<^verbatim>\<open>open\<close>/\<^verbatim>\<open>read\<close>, \<^verbatim>\<open>os.path.exists\<close>,
  \<^verbatim>\<open>os.path.isfile\<close>, \<^verbatim>\<open>os.path.isdir\<close>, \<^verbatim>\<open>os.rename\<close>, \<^verbatim>\<open>os.unlink\<close>,
  \<^verbatim>\<open>os.rmdir\<close> and \<^verbatim>\<open>shutil.copy2\<close>. The filesystem is a map from paths to
  nodes. A path is a string, a regular file holds its bytes (Python 2 \<^verbatim>\<open>str\<close>, one
  \<^typ>\<open>char\<close> per byte), and a directory carries the size that \<^verbatim>\<open>os.stat\<close> reports
  for it; what a directory holds are the nodes at the paths under it.
\<close>

type_synonym path = string

datatype node = File string | Dir nat

type_synonym filesystem = "path \<rightharpoonup> node"

datatype errno = ENOENT | EEXIST | EACCES | EISDIR | ENOTDIR | EPERM | ENOSPC | EINVAL

text \<open>
  The exceptions of the module. \<^verbatim>\<open>OSError\<close>, \<^verbatim>\<open>IOError\<close> and \<^verbatim>\<open>shutil.Error\<close> are
  subclasses of \<^verbatim>\<open>EnvironmentError\<close> in Python 2; \<^verbatim>\<open>NameError\<close> is not. An exception
  carries the path (or the name) it complains about.
\<close>

datatype error =
    OSError errno path
  | IOError errno path
  | ShutilError path path
  | NameError string

fun is_EnvironmentError :: "error \<Rightarrow> bool" where
  "is_EnvironmentError (NameError n) = False"
| "is_EnvironmentError e = True"

text \<open>
  A call can fail for reasons that the map of nodes does not show: permissions, a file
  held open by a running program, a full disk, a directory that is not empty. The
  environment therefore carries a fault plan: a call listed in it fails although the
  nodes would let it through. \<open>Deny\<close> refuses the call before it has done anything;
  \<open>Torn k\<close>, for \<^verbatim>\<open>shutil.copy2\<close>, fails the copy after the first \<open>k\<close> bytes have
  been written to the destination. The plan covers the calls that read (\<open>Stat\<close>,
  \<open>Open\<close>) as well as the ones that write. The environment also fixes the platform
  (\<^verbatim>\<open>sys.platform == "win32"\<close>).
\<close>

datatype syscall =
    Stat path
  | Open path
  | Rename path path
  | Copy2 path path
  | Unlink path
  | Rmdir path

datatype fault = Deny | Torn nat

record env =
  win32 :: bool
  faults :: "syscall \<rightharpoonup> fault"

subsection \<open>Calls that only read\<close>

text \<open>
  The \<^verbatim>\<open>stat\<close> call itself: it fails on a missing path, and on an existing one when the
  plan refuses it.
\<close>

definition stat_node :: "env \<Rightarrow> path \<Rightarrow> filesystem \<Rightarrow> error + node" where
  "stat_node ev p fs =
     (case fs p of
        None \<Rightarrow> Inl (OSError ENOENT p)
      | Some n \<Rightarrow>
          (case faults ev (Stat p) of
             Some f \<Rightarrow> Inl (OSError EACCES p)
           | None \<Rightarrow> Inr n))"

fun st_size :: "node \<Rightarrow> nat" where
  "st_size (File c) = length c"
| "st_size (Dir k) = k"

text \<open>\<^verbatim>\<open>os.stat(p).st_size\<close>: the only field of the result that the module reads.\<close>

definition os_stat :: "env \<Rightarrow> path \<Rightarrow> filesystem \<Rightarrow> error + nat" where
  "os_stat ev p fs =
     (case stat_node ev p fs of
        Inl e \<Rightarrow> Inl e
      | Inr n \<Rightarrow> Inr (st_size n))"

text \<open>
  \<^verbatim>\<open>os.path.exists\<close>, \<^verbatim>\<open>os.path.isfile\<close> and \<^verbatim>\<open>os.path.isdir\<close> call \<^verbatim>\<open>os.stat\<close> and
  answer false when it fails.
\<close>

definition os_path_exists :: "env \<Rightarrow> path \<Rightarrow> filesystem \<Rightarrow> bool" where
  "os_path_exists ev p fs = (case stat_node ev p fs of Inl e \<Rightarrow> False | Inr n \<Rightarrow> True)"

definition os_path_isfile :: "env \<Rightarrow> path \<Rightarrow> filesystem \<Rightarrow> bool" where
  "os_path_isfile ev p fs =
     (case stat_node ev p fs of Inl e \<Rightarrow> False | Inr (File c) \<Rightarrow> True | Inr (Dir k) \<Rightarrow> False)"

definition os_path_isdir :: "env \<Rightarrow> path \<Rightarrow> filesystem \<Rightarrow> bool" where
  "os_path_isdir ev p fs =
     (case stat_node ev p fs of Inl e \<Rightarrow> False | Inr (File c) \<Rightarrow> False | Inr (Dir k) \<Rightarrow> True)"

text \<open>
  \<^verbatim>\<open>open(p, "rb")\<close>: the handle is the list of bytes still to be read. Opening a
  directory for reading raises \<^verbatim>\<open>IOError\<close>, and so does opening a file that the plan
  makes unreadable.
\<close>

definition open_rb :: "env \<Rightarrow> path \<Rightarrow> filesystem \<Rightarrow> error + string" where
  "open_rb ev p fs =
     (case fs p of
        None \<Rightarrow> Inl (IOError ENOENT p)
      | Some (Dir k) \<Rightarrow> Inl (IOError EISDIR p)
      | Some (File c) \<Rightarrow>
          (case faults ev (Open p) of
             Some f \<Rightarrow> Inl (IOError EACCES p)
           | None \<Rightarrow> Inr c))"

section \<open>files\_differ\<close>

text \<open>The chunk size \<^verbatim>\<open>1024*256\<close> of the reads.\<close>

definition chunk_size :: nat where
  "chunk_size = 1024 * 256"

text \<open>
  The \<^verbatim>\<open>while data1 and data2\<close> loop of \<^verbatim>\<open>files_differ\<close> and the \<^verbatim>\<open>return\<close> after it.
  \<open>data1\<close> and \<open>data2\<close> are the chunks read last, \<open>f1\<close> and \<open>f2\<close> the bytes the two
  handles have not delivered yet; \<^verbatim>\<open>f.read(n)\<close> delivers \<open>take n f\<close> and leaves
  \<open>drop n f\<close>.
\<close>

function compare_chunks :: "string \<Rightarrow> string \<Rightarrow> string \<Rightarrow> string \<Rightarrow> bool" where
  "compare_chunks data1 data2 f1 f2 =
     (if data1 \<noteq> [] \<and> data2 \<noteq> [] then
        (if data1 \<noteq> data2 then True
         else compare_chunks (take chunk_size f1) (take chunk_size f2)
                (drop chunk_size f1) (drop chunk_size f2))
      else data1 \<noteq> data2)"
  by pat_completeness auto
termination
proof (relation "measure (\<lambda>(data1, data2, f1, f2). length data1 + length f1)")
  show "wf (measure (\<lambda>(data1, data2, f1, f2). length data1 + length f1))"
    by simp
next
  fix data1 data2 f1 f2 :: string
  assume "data1 \<noteq> [] \<and> data2 \<noteq> []" and "\<not> data1 \<noteq> data2"
  then have "0 < length data1"
    by simp
  moreover have "length (take chunk_size f1) + length (drop chunk_size f1) = length f1"
    by (simp only: length_append [symmetric] append_take_drop_id)
  ultimately show
    "((take chunk_size f1, take chunk_size f2, drop chunk_size f1, drop chunk_size f2),
      (data1, data2, f1, f2))
     \<in> measure (\<lambda>(data1, data2, f1, f2). length data1 + length f1)"
    by simp
qed

declare compare_chunks.simps [simp del]

text \<open>
  \<^verbatim>\<open>files_differ(file1, file2)\<close>. The \<^verbatim>\<open>try\<close> around the two \<^verbatim>\<open>os.stat\<close> calls catches
  \<^verbatim>\<open>EnvironmentError\<close>; the two \<^verbatim>\<open>open\<close> calls stand outside it, under \<^verbatim>\<open>try ... finally\<close>
  blocks that close the handles and let the exception through.
\<close>

definition files_differ :: "env \<Rightarrow> path \<Rightarrow> path \<Rightarrow> filesystem \<Rightarrow> error + bool" where
  "files_differ ev file1 file2 fs =
     (case os_stat ev file1 fs of
        Inl e \<Rightarrow> (if is_EnvironmentError e then Inr True else Inl e)
      | Inr size1 \<Rightarrow>
          (case os_stat ev file2 fs of
             Inl e \<Rightarrow> (if is_EnvironmentError e then Inr True else Inl e)
           | Inr size2 \<Rightarrow>
               if size1 \<noteq> size2 then Inr True
               else
                 (case open_rb ev file1 fs of
                    Inl e \<Rightarrow> Inl e
                  | Inr f1 \<Rightarrow>
                      (case open_rb ev file2 fs of
                         Inl e \<Rightarrow> Inl e
                       | Inr f2 \<Rightarrow>
                           Inr (compare_chunks (take chunk_size f1) (take chunk_size f2)
                                  (drop chunk_size f1) (drop chunk_size f2))))))"

section \<open>Calls that change the filesystem\<close>

text \<open>
  A path \<open>p\<close> lies under a directory \<open>d\<close> when it is \<open>d\<close>, a separator and more. The
  separator is the slash, and on win32 the backslash as well.
\<close>

definition is_sep :: "env \<Rightarrow> char \<Rightarrow> bool" where
  "is_sep ev c = (c = CHR ''/'' \<or> (win32 ev \<and> c = CHR 0x5C))"

definition under :: "env \<Rightarrow> path \<Rightarrow> path \<Rightarrow> bool" where
  "under ev d p = (length d < length p \<and> take (length d) p = d \<and> is_sep ev (p ! length d))"

text \<open>
  The effect of a rename that goes through. A file moves from its old path to the new
  one. A directory takes along every path under it: what was \<open>src/r\<close> becomes
  \<open>dst/r\<close>.
\<close>

definition move_node :: "env \<Rightarrow> path \<Rightarrow> path \<Rightarrow> node \<Rightarrow> filesystem \<Rightarrow> filesystem" where
  "move_node ev src dst n fs =
     (case n of
        File c \<Rightarrow> (fs(src := None))(dst \<mapsto> n)
      | Dir k \<Rightarrow>
          (\<lambda>p. if p = dst then Some n
               else if under ev dst p then fs (src @ drop (length dst) p)
               else if p = src \<or> under ev src p then None
               else fs p))"

text \<open>
  \<^verbatim>\<open>os.rename(src, dst)\<close>. The source must exist. On win32 the call fails when the
  destination exists; elsewhere it replaces the destination, unless one of the two is a
  file and the other a directory. A directory cannot be moved under itself. Whether a
  directory that is replaced or removed is empty is not read off the map: the refusal for
  one that is not empty is a fault of the plan. A call that fails leaves the filesystem as
  it was.
\<close>

fun rename_clash :: "node \<Rightarrow> node option \<Rightarrow> errno option" where
  "rename_clash (File c) (Some (Dir n)) = Some EISDIR"
| "rename_clash (Dir n) (Some (File c)) = Some ENOTDIR"
| "rename_clash n d = None"

definition os_rename ::
  "env \<Rightarrow> path \<Rightarrow> path \<Rightarrow> filesystem \<Rightarrow> (error + unit) \<times> filesystem" where
  "os_rename ev src dst fs =
     (case fs src of
        None \<Rightarrow> (Inl (OSError ENOENT src), fs)
      | Some n \<Rightarrow>
          if src = dst then (Inr (), fs)
          else if under ev src dst then (Inl (OSError EINVAL dst), fs)
          else if win32 ev \<and> fs dst \<noteq> None then (Inl (OSError EEXIST dst), fs)
          else
            (case rename_clash n (fs dst) of
               Some en \<Rightarrow> (Inl (OSError en dst), fs)
             | None \<Rightarrow>
                 (case faults ev (Rename src dst) of
                    Some f \<Rightarrow> (Inl (OSError EACCES src), fs)
                  | None \<Rightarrow> (Inr (), move_node ev src dst n fs))))"

text \<open>\<^verbatim>\<open>os.unlink(p)\<close> removes a regular file.\<close>

definition os_unlink :: "env \<Rightarrow> path \<Rightarrow> filesystem \<Rightarrow> (error + unit) \<times> filesystem" where
  "os_unlink ev p fs =
     (case fs p of
        None \<Rightarrow> (Inl (OSError ENOENT p), fs)
      | Some (Dir n) \<Rightarrow> (Inl (OSError EPERM p), fs)
      | Some (File c) \<Rightarrow>
          (case faults ev (Unlink p) of
             Some f \<Rightarrow> (Inl (OSError EACCES p), fs)
           | None \<Rightarrow> (Inr (), fs(p := None))))"

text \<open>\<^verbatim>\<open>os.rmdir(p)\<close> removes a directory.\<close>

definition os_rmdir :: "env \<Rightarrow> path \<Rightarrow> filesystem \<Rightarrow> (error + unit) \<times> filesystem" where
  "os_rmdir ev p fs =
     (case fs p of
        None \<Rightarrow> (Inl (OSError ENOENT p), fs)
      | Some (File c) \<Rightarrow> (Inl (OSError ENOTDIR p), fs)
      | Some (Dir n) \<Rightarrow>
          (case faults ev (Rmdir p) of
             Some f \<Rightarrow> (Inl (OSError EACCES p), fs)
           | None \<Rightarrow> (Inr (), fs(p := None))))"

text \<open>
  \<^verbatim>\<open>shutil.copy2(src, dst)\<close>. When the destination is a directory the copy goes to
  \<^verbatim>\<open>os.path.join(dst, os.path.basename(src))\<close>. The call refuses to copy a file onto
  itself, opens the source for reading, then the destination for writing (which truncates
  it), copies the bytes and then the metadata.
\<close>

definition os_sep :: "env \<Rightarrow> char" where
  "os_sep ev = (if win32 ev then CHR 0x5C else CHR ''/'')"

fun basename_rev :: "env \<Rightarrow> string \<Rightarrow> string" where
  "basename_rev ev [] = []"
| "basename_rev ev (c # cs) = (if is_sep ev c then [] else c # basename_rev ev cs)"

definition os_path_basename :: "env \<Rightarrow> path \<Rightarrow> path" where
  "os_path_basename ev p = rev (basename_rev ev (rev p))"

definition copy2_target :: "env \<Rightarrow> path \<Rightarrow> path \<Rightarrow> filesystem \<Rightarrow> path" where
  "copy2_target ev src dst fs =
     (if os_path_isdir ev dst fs then dst @ [os_sep ev] @ os_path_basename ev src else dst)"

definition shutil_copy2 ::
  "env \<Rightarrow> path \<Rightarrow> path \<Rightarrow> filesystem \<Rightarrow> (error + unit) \<times> filesystem" where
  "shutil_copy2 ev src dst fs =
     (let dst' = copy2_target ev src dst fs in
      if src = dst' \<and> (case fs src of Some (File c) \<Rightarrow> True | _ \<Rightarrow> False)
      then (Inl (ShutilError src dst'), fs)
      else
        (case open_rb ev src fs of
           Inl e \<Rightarrow> (Inl e, fs)
         | Inr c \<Rightarrow>
             (case fs dst' of
                Some (Dir k) \<Rightarrow> (Inl (IOError EISDIR dst'), fs)
              | _ \<Rightarrow>
                  (case faults ev (Copy2 src dst) of
                     Some Deny \<Rightarrow> (Inl (IOError EACCES dst'), fs)
                   | Some (Torn k) \<Rightarrow> (Inl (IOError ENOSPC dst'), fs(dst' \<mapsto> File (take k c)))
                   | None \<Rightarrow> (Inr (), fs(dst' \<mapsto> File c))))))"

section \<open>FSTransaction, the fallback implementation\<close>

text \<open>
  The entries of \<^verbatim>\<open>self.pending\<close>: the tuples \<^verbatim>\<open>("_move", source, target)\<close>,
  \<^verbatim>\<open>("_copy", source, target)\<close> and \<^verbatim>\<open>("_remove", target)\<close>.
\<close>

datatype op = Move path path | Copy path path | Remove path

record transaction =
  pending :: "op list"

text \<open>
  A method runs on the object and the filesystem together and returns its outcome with
  both: \<open>Inl\<close> is the exception it raised.
\<close>

type_synonym state = "transaction \<times> filesystem"

text \<open>\<^verbatim>\<open>FSTransaction._move\<close>.\<close>

definition priv_move ::
  "env \<Rightarrow> path \<Rightarrow> path \<Rightarrow> filesystem \<Rightarrow> (error + unit) \<times> filesystem" where
  "priv_move ev source target fs =
     (if win32 ev \<and> os_path_exists ev target fs then
        (case os_rename ev target (target @ ''.old'') fs of
           (Inl e, fs1) \<Rightarrow> (Inl e, fs1)
         | (Inr u, fs1) \<Rightarrow>
             (case os_rename ev source target fs1 of
                (Inl e, fs2) \<Rightarrow>
                  (case os_rename ev (target @ ''.old'') target fs2 of
                     (Inl e', fs3) \<Rightarrow> (Inl e', fs3)
                   | (Inr u', fs3) \<Rightarrow> (Inl e, fs3))
              | (Inr u', fs2) \<Rightarrow>
                  (case os_unlink ev (target @ ''.old'') fs2 of
                     (Inl e, fs3) \<Rightarrow>
                       if is_EnvironmentError e then (Inr (), fs3) else (Inl e, fs3)
                   | (Inr u'', fs3) \<Rightarrow> (Inr (), fs3))))
      else os_rename ev source target fs)"

text \<open>\<^verbatim>\<open>FSTransaction._copy\<close>.\<close>

definition priv_copy ::
  "env \<Rightarrow> path \<Rightarrow> path \<Rightarrow> filesystem \<Rightarrow> (error + unit) \<times> filesystem" where
  "priv_copy ev source target fs =
     (if win32 ev \<and> os_path_exists ev target fs then
        (case os_rename ev target (target @ ''.old'') fs of
           (Inl e, fs1) \<Rightarrow> (Inl e, fs1)
         | (Inr u, fs1) \<Rightarrow>
             (case shutil_copy2 ev source target fs1 of
                (Inl e, fs2) \<Rightarrow>
                  (case os_rename ev (target @ ''.old'') target fs2 of
                     (Inl e', fs3) \<Rightarrow> (Inl e', fs3)
                   | (Inr u', fs3) \<Rightarrow> (Inl e, fs3))
              | (Inr u', fs2) \<Rightarrow>
                  (case os_unlink ev (target @ ''.old'') fs2 of
                     (Inl e, fs3) \<Rightarrow>
                       if is_EnvironmentError e then (Inr (), fs3) else (Inl e, fs3)
                   | (Inr u'', fs3) \<Rightarrow> (Inr (), fs3))))
      else shutil_copy2 ev source target fs)"

text \<open>\<^verbatim>\<open>FSTransaction._remove\<close>.\<close>

definition priv_remove ::
  "env \<Rightarrow> path \<Rightarrow> filesystem \<Rightarrow> (error + unit) \<times> filesystem" where
  "priv_remove ev target fs =
     (if os_path_isfile ev target fs then os_unlink ev target fs else os_rmdir ev target fs)"

text \<open>\<^verbatim>\<open>FSTransaction.remove\<close>, \<^verbatim>\<open>move\<close> and \<^verbatim>\<open>copy\<close>.\<close>

definition remove :: "path \<Rightarrow> state \<Rightarrow> (error + unit) \<times> state" where
  "remove target s =
     (case s of (tx, fs) \<Rightarrow>
        (Inr (), (tx\<lparr>pending := pending tx @ [Remove target]\<rparr>, fs)))"

definition move :: "env \<Rightarrow> path \<Rightarrow> path \<Rightarrow> state \<Rightarrow> (error + unit) \<times> state" where
  "move ev source target s =
     (case s of (tx, fs) \<Rightarrow>
        (case files_differ ev source target fs of
           Inl e \<Rightarrow> (Inl e, s)
         | Inr d \<Rightarrow>
             if d then (Inr (), (tx\<lparr>pending := pending tx @ [Move source target]\<rparr>, fs))
             else remove source s))"

definition copy :: "env \<Rightarrow> path \<Rightarrow> path \<Rightarrow> state \<Rightarrow> (error + unit) \<times> state" where
  "copy ev source target s =
     (case s of (tx, fs) \<Rightarrow>
        (case files_differ ev source target fs of
           Inl e \<Rightarrow> (Inl e, s)
         | Inr d \<Rightarrow>
             if d then (Inr (), (tx\<lparr>pending := pending tx @ [Copy source target]\<rparr>, fs))
             else (Inr (), s)))"

text \<open>
  \<^verbatim>\<open>FSTransaction.commit\<close>: \<^verbatim>\<open>getattr(self,op[0])(*op[1:])\<close> is \<open>apply_op\<close>, the
  \<^verbatim>\<open>for\<close> loop over \<^verbatim>\<open>self.pending\<close> is \<open>commit_loop\<close>. The method assigns nothing to
  \<^verbatim>\<open>self.pending\<close>.
\<close>

fun apply_op :: "env \<Rightarrow> op \<Rightarrow> filesystem \<Rightarrow> (error + unit) \<times> filesystem" where
  "apply_op ev (Move source target) fs = priv_move ev source target fs"
| "apply_op ev (Copy source target) fs = priv_copy ev source target fs"
| "apply_op ev (Remove target) fs = priv_remove ev target fs"

fun commit_loop :: "env \<Rightarrow> op list \<Rightarrow> filesystem \<Rightarrow> (error + unit) \<times> filesystem" where
  "commit_loop ev [] fs = (Inr (), fs)"
| "commit_loop ev (x # xs) fs =
     (case apply_op ev x fs of
        (Inl e, fs') \<Rightarrow> (Inl e, fs')
      | (Inr u, fs') \<Rightarrow> commit_loop ev xs fs')"

definition commit :: "env \<Rightarrow> state \<Rightarrow> (error + unit) \<times> state" where
  "commit ev s =
     (case s of (tx, fs) \<Rightarrow>
        (case commit_loop ev (pending tx) fs of (r, fs') \<Rightarrow> (r, (tx, fs'))))"

text \<open>\<^verbatim>\<open>FSTransaction.abort\<close>: \<^verbatim>\<open>del self.pending[:]\<close>.\<close>

definition abort :: "state \<Rightarrow> (error + unit) \<times> state" where
  "abort s = (case s of (tx, fs) \<Rightarrow> (Inr (), (tx\<lparr>pending := []\<rparr>, fs)))"

text \<open>
  A caller that makes a series of \<^verbatim>\<open>move\<close>, \<^verbatim>\<open>copy\<close> and \<^verbatim>\<open>remove\<close> calls on one
  transaction, going on to the next call whatever the last one returned or raised.
\<close>

datatype request = CallMove path path | CallCopy path path | CallRemove path

fun invoke :: "env \<Rightarrow> request \<Rightarrow> state \<Rightarrow> (error + unit) \<times> state" where
  "invoke ev (CallMove source target) s = move ev source target s"
| "invoke ev (CallCopy source target) s = copy ev source target s"
| "invoke ev (CallRemove target) s = remove target s"

fun invoke_all :: "env \<Rightarrow> request list \<Rightarrow> state \<Rightarrow> state" where
  "invoke_all ev [] s = s"
| "invoke_all ev (r # rs) s = invoke_all ev rs (snd (invoke ev r s))"

section \<open>FSTransaction on the transacted file API of Windows\<close>

text \<open>
  The first class of the module hands every operation to the functions of
  \<^verbatim>\<open>ktmw32.dll\<close> and \<^verbatim>\<open>kernel32.dll\<close>, all on the one handle \<^verbatim>\<open>self.trnid\<close>. They are
  foreign functions called through \<^verbatim>\<open>ctypes\<close>: they return a status and raise nothing, and
  what they do inside the transaction is not visible to \<^verbatim>\<open>os.stat\<close> or
  \<^verbatim>\<open>os.path.exists\<close> before the commit. The object is therefore the list of the calls it
  has made so far, with the paths each call was given; the filesystem is only read.
  \<^verbatim>\<open>s.encode(sys.getfilesystemencoding())\<close> is the parameter \<open>enc\<close>.
\<close>

datatype oscall =
    MoveFileTransacted string string
  | CopyFileTransacted string string
  | DeleteFileTransacted string
  | RemoveDirectoryTransacted string
  | CommitTransaction
  | RollbackTransaction

record native =
  calls :: "oscall list"

text \<open>
  \<^verbatim>\<open>remove(self, target)\<close>. Its first statement reads the name \<^verbatim>\<open>source\<close>. The names
  bound in the method are its parameters, and the module has no global of that name, so
  the lookup is made in the parameters of the method (\<^verbatim>\<open>self\<close> apart); a name that is
  not found raises \<^verbatim>\<open>NameError\<close>.
\<close>

definition native_remove ::
  "env \<Rightarrow> (path \<Rightarrow> string) \<Rightarrow> path \<Rightarrow> filesystem \<Rightarrow> native \<Rightarrow> (error + unit) \<times> native"
  where
  "native_remove ev enc target fs nt =
     (case map_of [(''target'', target)] ''source'' of
        None \<Rightarrow> (Inl (NameError ''source''), nt)
      | Some source \<Rightarrow>
          (let tgtenc = enc source in
           if os_path_isdir ev target fs
           then (Inr (), nt\<lparr>calls := calls nt @ [RemoveDirectoryTransacted tgtenc]\<rparr>)
           else (Inr (), nt\<lparr>calls := calls nt @ [DeleteFileTransacted tgtenc]\<rparr>)))"

text \<open>
  \<^verbatim>\<open>move(self, source, target)\<close>: after \<^verbatim>\<open>self.remove(source)\<close> there is neither a
  \<^verbatim>\<open>return\<close> nor an \<^verbatim>\<open>else\<close>, so the method goes on when that call returns.
\<close>

definition native_move ::
  "env \<Rightarrow> (path \<Rightarrow> string) \<Rightarrow> path \<Rightarrow> path \<Rightarrow> filesystem \<Rightarrow> native \<Rightarrow>
     (error + unit) \<times> native" where
  "native_move ev enc source target fs nt =
     (case files_differ ev source target fs of
        Inl e \<Rightarrow> (Inl e, nt)
      | Inr d \<Rightarrow>
          (case (if \<not> d then native_remove ev enc source fs nt else (Inr (), nt)) of
             (Inl e, nt1) \<Rightarrow> (Inl e, nt1)
           | (Inr u, nt1) \<Rightarrow>
               (let srcenc = enc source; tgtenc = enc source in
                if os_path_exists ev target fs
                then (Inr (), nt1\<lparr>calls := calls nt1 @
                        [MoveFileTransacted tgtenc (tgtenc @ ''.old''),
                         MoveFileTransacted srcenc tgtenc,
                         DeleteFileTransacted (tgtenc @ ''.old'')]\<rparr>)
                else (Inr (), nt1\<lparr>calls := calls nt1 @
                        [MoveFileTransacted srcenc tgtenc]\<rparr>))))"

text \<open>\<^verbatim>\<open>copy(self, source, target)\<close>.\<close>

definition native_copy ::
  "env \<Rightarrow> (path \<Rightarrow> string) \<Rightarrow> path \<Rightarrow> path \<Rightarrow> filesystem \<Rightarrow> native \<Rightarrow>
     (error + unit) \<times> native" where
  "native_copy ev enc source target fs nt =
     (case files_differ ev source target fs of
        Inl e \<Rightarrow> (Inl e, nt)
      | Inr d \<Rightarrow>
          if \<not> d then (Inr (), nt)
          else
            (let srcenc = enc source; tgtenc = enc source in
             if os_path_exists ev target fs
             then (Inr (), nt\<lparr>calls := calls nt @
                     [MoveFileTransacted tgtenc (tgtenc @ ''.old''),
                      CopyFileTransacted srcenc tgtenc,
                      DeleteFileTransacted (tgtenc @ ''.old'')]\<rparr>)
             else (Inr (), nt\<lparr>calls := calls nt @
                     [CopyFileTransacted srcenc tgtenc]\<rparr>)))"

text \<open>\<^verbatim>\<open>commit(self)\<close> and \<^verbatim>\<open>abort(self)\<close>.\<close>

definition native_commit :: "native \<Rightarrow> (error + unit) \<times> native" where
  "native_commit nt = (Inr (), nt\<lparr>calls := calls nt @ [CommitTransaction]\<rparr>)"

definition native_abort :: "native \<Rightarrow> (error + unit) \<times> native" where
  "native_abort nt = (Inr (), nt\<lparr>calls := calls nt @ [RollbackTransaction]\<rparr>)"

section \<open>The comparator\<close>

text \<open>
  The chunked comparison decides equality of the two byte sequences. The invariant of the
  loop: a chunk is never longer than the chunk size, and a short chunk means that its
  handle is exhausted.
\<close>

lemma chunk_size_pos: "0 < chunk_size"
  by (simp add: chunk_size_def)

lemma compare_chunks_inv:
  "length data1 \<le> chunk_size \<Longrightarrow> (length data1 < chunk_size \<longrightarrow> f1 = []) \<Longrightarrow>
   length data2 \<le> chunk_size \<Longrightarrow> (length data2 < chunk_size \<longrightarrow> f2 = []) \<Longrightarrow>
   compare_chunks data1 data2 f1 f2 = (data1 @ f1 \<noteq> data2 @ f2)"
proof (induction data1 data2 f1 f2 rule: compare_chunks.induct)
  case (1 data1 data2 f1 f2)
  show ?case
  proof (cases "data1 \<noteq> [] \<and> data2 \<noteq> []")
    case False
    then show ?thesis
      using "1.prems" chunk_size_pos
      by (subst compare_chunks.simps) auto
  next
    case both: True
    show ?thesis
    proof (cases "data1 = data2")
      case True
      have "compare_chunks (take chunk_size f1) (take chunk_size f2)
              (drop chunk_size f1) (drop chunk_size f2)
            = (take chunk_size f1 @ drop chunk_size f1 \<noteq> take chunk_size f2 @ drop chunk_size f2)"
        using both True by (intro "1.IH") auto
      then show ?thesis
        using both True by (subst compare_chunks.simps) simp
    next
      case False
      have "data1 @ f1 \<noteq> data2 @ f2"
      proof
        assume eq: "data1 @ f1 = data2 @ f2"
        show False
        proof (cases "length data1 = length data2")
          case True
          with eq False show False by simp
        next
          case ne: False
          then consider "length data1 < length data2" | "length data2 < length data1"
            by linarith
          then show False
          proof cases
            case 1
            then have "f1 = []" using "1.prems" by simp
            with eq have "length data1 = length data2 + length f2"
              by (metis append_Nil2 length_append)
            with 1 show False by simp
          next
            case 2
            then have "f2 = []" using "1.prems" by simp
            with eq have "length data2 = length data1 + length f1"
              by (metis append_Nil2 length_append)
            with 2 show False by simp
          qed
        qed
      qed
      then show ?thesis
        using both False by (subst compare_chunks.simps) simp
    qed
  qed
qed

lemma compare_chunks_whole:
  "compare_chunks (take chunk_size f1) (take chunk_size f2)
     (drop chunk_size f1) (drop chunk_size f2) = (f1 \<noteq> f2)"
  using compare_chunks_inv [of "take chunk_size f1" "drop chunk_size f1"
      "take chunk_size f2" "drop chunk_size f2"]
  by auto


lemma files_differ_files:
  "fs file1 = Some (File c1) \<Longrightarrow> fs file2 = Some (File c2) \<Longrightarrow>
   faults ev (Stat file1) = None \<Longrightarrow> faults ev (Stat file2) = None \<Longrightarrow>
   faults ev (Open file1) = None \<Longrightarrow> faults ev (Open file2) = None \<Longrightarrow>
   files_differ ev file1 file2 fs = Inr (c1 \<noteq> c2)"
  by (auto simp add: files_differ_def os_stat_def stat_node_def open_rb_def compare_chunks_whole)

lemma os_stat_error: "os_stat ev p fs = Inl e \<Longrightarrow> is_EnvironmentError e"
  by (auto simp add: os_stat_def stat_node_def split: option.splits)

lemma os_stat_missing: "fs p = None \<Longrightarrow> os_stat ev p fs = Inl (OSError ENOENT p)"
  by (simp add: os_stat_def stat_node_def)

lemma files_differ_missing:
  "fs file1 = None \<or> fs file2 = None \<Longrightarrow> files_differ ev file1 file2 fs = Inr True"
  by (auto simp add: files_differ_def os_stat_missing split: sum.splits dest: os_stat_error)

lemma os_stat_file:
  "os_stat ev p fs = Inr n \<Longrightarrow> open_rb ev p fs = Inr c \<Longrightarrow> fs p = Some (File c) \<and> n = length c"
  by (auto simp add: os_stat_def stat_node_def open_rb_def split: option.splits node.splits)

lemma files_differ_False_iff:
  "files_differ ev file1 file2 fs = Inr False \<longleftrightarrow>
     (\<exists>c1 c2. fs file1 = Some (File c1) \<and> fs file2 = Some (File c2) \<and>
        length c1 = length c2 \<and> c1 = c2 \<and>
        os_stat ev file1 fs = Inr (length c1) \<and> os_stat ev file2 fs = Inr (length c2) \<and>
        open_rb ev file1 fs = Inr c1 \<and> open_rb ev file2 fs = Inr c2)"
  (is "?l \<longleftrightarrow> ?r")
proof
  assume ?l
  then obtain n1 n2 c1 c2 where
    s: "os_stat ev file1 fs = Inr n1" "os_stat ev file2 fs = Inr n2" "n1 = n2" and
    o: "open_rb ev file1 fs = Inr c1" "open_rb ev file2 fs = Inr c2" and
    c: "compare_chunks (take chunk_size c1) (take chunk_size c2)
          (drop chunk_size c1) (drop chunk_size c2) = False"
    by (auto simp add: files_differ_def split: sum.splits if_splits)
  from c have "c1 = c2"
    by (simp add: compare_chunks_whole)
  with s o os_stat_file [of ev file1 fs n1 c1] os_stat_file [of ev file2 fs n2 c2]
  show ?r
    by auto
next
  assume ?r
  then show ?l
    by (auto simp add: files_differ_def compare_chunks_whole)
qed

text \<open>
  C2, as the code has it. For every pair of paths, \<^verbatim>\<open>files_differ\<close> returns false if
  and only if both paths are existing files of equal size and equal byte content for
  which \<^verbatim>\<open>os.stat\<close> succeeds and which can be opened for reading; it returns true when
  either path is missing.
\<close>

theorem files_differ_comparator:
  "(files_differ ev file1 file2 fs = Inr False \<longleftrightarrow>
      (\<exists>c1 c2. fs file1 = Some (File c1) \<and> fs file2 = Some (File c2) \<and>
         length c1 = length c2 \<and> c1 = c2 \<and>
         os_stat ev file1 fs = Inr (length c1) \<and> os_stat ev file2 fs = Inr (length c2) \<and>
         open_rb ev file1 fs = Inr c1 \<and> open_rb ev file2 fs = Inr c2)) \<and>
   (fs file1 = None \<or> fs file2 = None \<longrightarrow> files_differ ev file1 file2 fs = Inr True)"
  using files_differ_False_iff [of ev file1 file2 fs] files_differ_missing [of fs file1 file2 ev]
  by blast

theorem files_differ_comparator_witness:
  "files_differ \<lparr>win32 = False, faults = Map.empty\<rparr> ''a.txt'' ''b.txt''
     [''a.txt'' \<mapsto> File ''hello'', ''b.txt'' \<mapsto> File ''hello''] = Inr False \<and>
   files_differ \<lparr>win32 = False, faults = Map.empty\<rparr> ''a.txt'' ''c.txt''
     [''a.txt'' \<mapsto> File ''hello'', ''b.txt'' \<mapsto> File ''hello''] = Inr True"
  using files_differ_comparator [of "\<lparr>win32 = False, faults = Map.empty\<rparr>" "''a.txt''" "''b.txt''"
      "[''a.txt'' \<mapsto> File ''hello'', ''b.txt'' \<mapsto> File ''hello'']"]
    files_differ_comparator [of "\<lparr>win32 = False, faults = Map.empty\<rparr>" "''a.txt''" "''c.txt''"
      "[''a.txt'' \<mapsto> File ''hello'', ''b.txt'' \<mapsto> File ''hello'']"]
  by (simp add: os_stat_def stat_node_def open_rb_def)

text \<open>
  C2, as the claim states it, fails on two existing files of the same bytes when one of
  them cannot be read. If the second file cannot be opened, \<^verbatim>\<open>files_differ\<close> raises
  \<^verbatim>\<open>IOError\<close> and does not return false; if \<^verbatim>\<open>os.stat\<close> is refused on it,
  \<^verbatim>\<open>files_differ\<close> returns true.
\<close>

theorem files_differ_unreadable_counterexample:
  "files_differ \<lparr>win32 = False, faults = [Open ''b.txt'' \<mapsto> Deny]\<rparr> ''a.txt'' ''b.txt''
     [''a.txt'' \<mapsto> File ''hello'', ''b.txt'' \<mapsto> File ''hello'']
     = Inl (IOError EACCES ''b.txt'') \<and>
   files_differ \<lparr>win32 = False, faults = [Open ''b.txt'' \<mapsto> Deny]\<rparr> ''a.txt'' ''b.txt''
     [''a.txt'' \<mapsto> File ''hello'', ''b.txt'' \<mapsto> File ''hello''] \<noteq> Inr False \<and>
   files_differ \<lparr>win32 = False, faults = [Stat ''b.txt'' \<mapsto> Deny]\<rparr> ''a.txt'' ''b.txt''
     [''a.txt'' \<mapsto> File ''hello'', ''b.txt'' \<mapsto> File ''hello''] = Inr True"
  by (simp add: files_differ_def os_stat_def stat_node_def open_rb_def)

text \<open>
  C6, as the code has it. An error of either \<^verbatim>\<open>os.stat\<close> call is swallowed and
  \<^verbatim>\<open>files_differ\<close> returns true. When both calls succeed and report the same size, an
  error opening the first file, or the second one after the first was opened, is not
  swallowed: \<^verbatim>\<open>files_differ\<close> raises it.
\<close>

theorem files_differ_stat_swallowed_open_raised:
  "(os_stat ev file1 fs = Inl e1 \<or> os_stat ev file2 fs = Inl e2 \<longrightarrow>
      files_differ ev file1 file2 fs = Inr True) \<and>
   (os_stat ev file1 fs = Inr n \<and> os_stat ev file2 fs = Inr n \<and> open_rb ev file1 fs = Inl e \<longrightarrow>
      files_differ ev file1 file2 fs = Inl e) \<and>
   (os_stat ev file1 fs = Inr n \<and> os_stat ev file2 fs = Inr n \<and> open_rb ev file1 fs = Inr c \<and>
      open_rb ev file2 fs = Inl e \<longrightarrow>
      files_differ ev file1 file2 fs = Inl e)"
proof (intro conjI impI)
  assume "os_stat ev file1 fs = Inl e1 \<or> os_stat ev file2 fs = Inl e2"
  then show "files_differ ev file1 file2 fs = Inr True"
    by (auto simp add: files_differ_def dest: os_stat_error split: sum.splits)
next
  assume "os_stat ev file1 fs = Inr n \<and> os_stat ev file2 fs = Inr n \<and>
      open_rb ev file1 fs = Inl e"
  then show "files_differ ev file1 file2 fs = Inl e"
    by (simp add: files_differ_def)
next
  assume "os_stat ev file1 fs = Inr n \<and> os_stat ev file2 fs = Inr n \<and>
      open_rb ev file1 fs = Inr c \<and> open_rb ev file2 fs = Inl e"
  then show "files_differ ev file1 file2 fs = Inl e"
    by (simp add: files_differ_def)
qed

theorem files_differ_stat_swallowed_open_raised_witness:
  "files_differ \<lparr>win32 = False, faults = Map.empty\<rparr> ''gone'' ''d2''
     [''d1'' \<mapsto> Dir 4096, ''d2'' \<mapsto> Dir 4096] = Inr True \<and>
   files_differ \<lparr>win32 = False, faults = Map.empty\<rparr> ''d1'' ''d2''
     [''d1'' \<mapsto> Dir 4096, ''d2'' \<mapsto> Dir 4096] = Inl (IOError EISDIR ''d1'') \<and>
   files_differ \<lparr>win32 = False, faults = Map.empty\<rparr> ''f'' ''d''
     [''f'' \<mapsto> File ''ab'', ''d'' \<mapsto> Dir 2] = Inl (IOError EISDIR ''d'')"
  using files_differ_stat_swallowed_open_raised [of "\<lparr>win32 = False, faults = Map.empty\<rparr>"
      "''gone''" "[''d1'' \<mapsto> Dir 4096, ''d2'' \<mapsto> Dir 4096]" "OSError ENOENT ''gone''" "''d2''"]
    files_differ_stat_swallowed_open_raised [of "\<lparr>win32 = False, faults = Map.empty\<rparr>"
      "''d1''" "[''d1'' \<mapsto> Dir 4096, ''d2'' \<mapsto> Dir 4096]" _ "''d2''" _ 4096
      "IOError EISDIR ''d1''"]
    files_differ_stat_swallowed_open_raised [of "\<lparr>win32 = False, faults = Map.empty\<rparr>"
      "''f''" "[''f'' \<mapsto> File ''ab'', ''d'' \<mapsto> Dir 2]" _ "''d''" _ 2
      "IOError EISDIR ''d''" "''ab''"]
  by (simp add: os_stat_def stat_node_def open_rb_def)

text \<open>
  C6, as the claim states it, fails on two directories for which \<^verbatim>\<open>os.stat\<close> reports the
  same size: both \<^verbatim>\<open>os.stat\<close> calls succeed, opening the first path for reading fails,
  and \<^verbatim>\<open>files_differ\<close> raises that error where the claim has it return true.
\<close>

theorem files_differ_read_error_counterexample:
  "open_rb \<lparr>win32 = False, faults = Map.empty\<rparr> ''d1''
     [''d1'' \<mapsto> Dir 4096, ''d2'' \<mapsto> Dir 4096] = Inl (IOError EISDIR ''d1'') \<and>
   files_differ \<lparr>win32 = False, faults = Map.empty\<rparr> ''d1'' ''d2''
     [''d1'' \<mapsto> Dir 4096, ''d2'' \<mapsto> Dir 4096] = Inl (IOError EISDIR ''d1'') \<and>
   files_differ \<lparr>win32 = False, faults = Map.empty\<rparr> ''d1'' ''d2''
     [''d1'' \<mapsto> Dir 4096, ''d2'' \<mapsto> Dir 4096] \<noteq> Inr True"
  by (simp add: files_differ_def os_stat_def stat_node_def open_rb_def)

section \<open>The implementation on the transacted file API\<close>

text \<open>
  C7, at every input. The claim places the defect of \<^verbatim>\<open>remove(target)\<close> in its first
  statement, which encodes \<^verbatim>\<open>source\<close> where \<^verbatim>\<open>target\<close> is meant. The scope of the
  method does not bind \<^verbatim>\<open>source\<close>, so whatever the target and the filesystem, the call
  raises \<^verbatim>\<open>NameError\<close> and the transacted delete or remove-directory call that the next
  lines attempt is never made.
\<close>

theorem native_remove_raises_NameError:
  "native_remove ev enc target fs nt = (Inl (NameError ''source''), nt)"
  by (simp add: native_remove_def)

text \<open>
  C3, at the input where the code departs from it. \<^verbatim>\<open>move(a, b)\<close> on two files of the
  same content, in the implementation on the transacted file API: the method calls
  \<^verbatim>\<open>self.remove(source)\<close>, which raises \<^verbatim>\<open>NameError\<close>; nothing is removed and no call of
  the transacted API is made.
\<close>

theorem native_move_identical_files_raises:
  "native_move \<lparr>win32 = True, faults = Map.empty\<rparr> (\<lambda>p. p) ''a.txt'' ''b.txt''
     [''a.txt'' \<mapsto> File ''hello'', ''b.txt'' \<mapsto> File ''hello''] \<lparr>calls = []\<rparr>
   = (Inl (NameError ''source''), \<lparr>calls = []\<rparr>)"
  by (simp add: native_move_def native_remove_def files_differ_files)

text \<open>
  C8. In the implementation on the transacted file API, a \<^verbatim>\<open>move(source, target)\<close> or
  \<^verbatim>\<open>copy(source, target)\<close> that reaches its apply step (the files differ) gives the
  transacted API only paths computed from \<^verbatim>\<open>source\<close>: the destination of the transacted
  rename or copy is the encoded source, and the target decides nothing but which branch
  is taken.
\<close>

theorem native_paths_from_source:
  "(files_differ ev source target fs = Inr True \<longrightarrow>
      native_move ev enc source target fs nt =
        (Inr (), nt\<lparr>calls := calls nt @
           (if os_path_exists ev target fs
            then [MoveFileTransacted (enc source) (enc source @ ''.old''),
                  MoveFileTransacted (enc source) (enc source),
                  DeleteFileTransacted (enc source @ ''.old'')]
            else [MoveFileTransacted (enc source) (enc source)])\<rparr>)) \<and>
   (files_differ ev source target fs = Inr True \<longrightarrow>
      native_copy ev enc source target fs nt =
        (Inr (), nt\<lparr>calls := calls nt @
           (if os_path_exists ev target fs
            then [MoveFileTransacted (enc source) (enc source @ ''.old''),
                  CopyFileTransacted (enc source) (enc source),
                  DeleteFileTransacted (enc source @ ''.old'')]
            else [CopyFileTransacted (enc source) (enc source)])\<rparr>))"
  by (simp add: native_move_def native_copy_def Let_def)

theorem native_paths_from_source_witness:
  "native_move \<lparr>win32 = True, faults = Map.empty\<rparr> (\<lambda>p. p) ''a'' ''b''
     [''a'' \<mapsto> File ''x'', ''b'' \<mapsto> File ''y''] \<lparr>calls = []\<rparr>
     = (Inr (), \<lparr>calls = [MoveFileTransacted ''a'' ''a.old'', MoveFileTransacted ''a'' ''a'',
          DeleteFileTransacted ''a.old'']\<rparr>) \<and>
   native_copy \<lparr>win32 = True, faults = Map.empty\<rparr> (\<lambda>p. p) ''a'' ''b''
     [''a'' \<mapsto> File ''x'', ''b'' \<mapsto> File ''y''] \<lparr>calls = []\<rparr>
     = (Inr (), \<lparr>calls = [MoveFileTransacted ''a'' ''a.old'', CopyFileTransacted ''a'' ''a'',
          DeleteFileTransacted ''a.old'']\<rparr>)"
  using native_paths_from_source [of "\<lparr>win32 = True, faults = Map.empty\<rparr>" "''a''" "''b''"
      "[''a'' \<mapsto> File ''x'', ''b'' \<mapsto> File ''y'']" "\<lambda>p. p" "\<lparr>calls = []\<rparr>"]
  by (simp add: files_differ_files os_path_exists_def stat_node_def)

section \<open>The fallback implementation: the queue\<close>

text \<open>
  C9. \<^verbatim>\<open>remove(target)\<close> of the fallback implementation appends the removal to the queue
  whatever the target and the filesystem are, and raises nothing. A target that is missing
  makes \<^verbatim>\<open>_remove\<close> fail, so the error appears when \<^verbatim>\<open>commit\<close> applies the queue.
\<close>

theorem remove_enqueues_fails_at_commit:
  "remove target (tx, fs) = (Inr (), (tx\<lparr>pending := pending tx @ [Remove target]\<rparr>, fs)) \<and>
   (fs target = None \<longrightarrow>
      priv_remove ev target fs = (Inl (OSError ENOENT target), fs) \<and>
      commit ev (snd (remove target (\<lparr>pending = []\<rparr>, fs)))
        = (Inl (OSError ENOENT target), (\<lparr>pending = [Remove target]\<rparr>, fs)))"
  by (simp add: remove_def commit_def priv_remove_def os_path_isfile_def stat_node_def
      os_rmdir_def)

theorem remove_enqueues_fails_at_commit_witness:
  "remove ''gone'' (\<lparr>pending = []\<rparr>, [''a'' \<mapsto> File ''x''])
     = (Inr (), (\<lparr>pending = [Remove ''gone'']\<rparr>, [''a'' \<mapsto> File ''x''])) \<and>
   commit \<lparr>win32 = False, faults = Map.empty\<rparr>
       (snd (remove ''gone'' (\<lparr>pending = []\<rparr>, [''a'' \<mapsto> File ''x''])))
     = (Inl (OSError ENOENT ''gone''), (\<lparr>pending = [Remove ''gone'']\<rparr>, [''a'' \<mapsto> File ''x'']))"
  using remove_enqueues_fails_at_commit [of "''gone''" "\<lparr>pending = []\<rparr>"
      "[''a'' \<mapsto> File ''x'']" "\<lparr>win32 = False, faults = Map.empty\<rparr>"]
  by (simp add: remove_def)

text \<open>
  The calls that fill the queue read the filesystem and leave it as it is.
\<close>

lemma invoke_filesystem: "snd (snd (invoke ev r (tx, fs))) = fs"
  by (cases r) (auto simp add: move_def copy_def remove_def split: sum.splits)

lemma invoke_all_filesystem: "snd (invoke_all ev rs (tx, fs)) = fs"
proof (induction rs arbitrary: tx)
  case Nil
  show ?case by simp
next
  case (Cons r rs)
  obtain res tx' fs' where step: "invoke ev r (tx, fs) = (res, (tx', fs'))"
    by (metis prod.exhaust)
  then have "fs' = fs"
    using invoke_filesystem [of ev r tx fs] by simp
  with step Cons.IH [of tx'] show ?case
    by simp
qed

text \<open>
  C10. After any series of \<^verbatim>\<open>move\<close>, \<^verbatim>\<open>copy\<close> and \<^verbatim>\<open>remove\<close> calls, \<^verbatim>\<open>abort\<close> raises
  nothing, leaves an empty queue, and the filesystem is the one from before the first
  call.
\<close>

theorem abort_discards_queue:
  "abort (invoke_all ev rs (tx, fs)) = (Inr (), (\<lparr>pending = []\<rparr>, fs))"
proof -
  obtain tx' fs' where st: "invoke_all ev rs (tx, fs) = (tx', fs')"
    by (metis prod.exhaust)
  then have "fs' = fs"
    using invoke_all_filesystem [of ev rs tx fs] by simp
  with st show ?thesis
    by (simp add: abort_def)
qed







section \<open>The fallback implementation: replacing a target\<close>


lemma os_rename_backup:
  assumes "win32 ev" and "fs target = Some (File c)"
    and "os_rename ev target (target @ ''.old'') fs = (Inr (), fs1)"
  shows "fs (target @ ''.old'') = None \<and>
         fs1 = (fs(target := None))(target @ ''.old'' \<mapsto> File c)"
  using assms
  by (auto simp add: os_rename_def move_node_def split: option.splits if_splits)



lemma os_unlink_cases:
  "os_unlink ev p fs = (r, fs') \<Longrightarrow>
     (fs' = fs \<and> (\<exists>e. r = Inl e \<and> is_EnvironmentError e)) \<or>
     (r = Inr () \<and> fs' = fs(p := None))"
  by (auto simp add: os_unlink_def split: option.splits node.splits)

lemma os_unlink_file:
  "fs p = Some (File c) \<Longrightarrow> faults ev (Unlink p) = None \<Longrightarrow>
   os_unlink ev p fs = (Inr (), fs(p := None))"
  by (simp add: os_unlink_def)

lemma os_rename_file_success:
  "os_rename ev src dst fs = (Inr (), fs') \<Longrightarrow> fs src = Some (File c) \<Longrightarrow>
   fs' = (fs(src := None))(dst \<mapsto> File c)"
  by (auto simp add: os_rename_def move_node_def fun_eq_iff split: if_splits option.splits)

lemma os_rename_missing:
  "fs src = None \<Longrightarrow> os_rename ev src dst fs = (Inl (OSError ENOENT src), fs)"
  by (simp add: os_rename_def)

lemma shutil_copy2_file_success:
  "shutil_copy2 ev src dst fs = (Inr (), fs') \<Longrightarrow> fs src = Some (File c) \<Longrightarrow>
   (\<forall>k. fs dst \<noteq> Some (Dir k)) \<Longrightarrow> fs' = fs(dst \<mapsto> File c) \<and> src \<noteq> dst"
  by (auto simp add: shutil_copy2_def copy2_target_def os_path_isdir_def stat_node_def
      open_rb_def Let_def
      split: if_splits option.splits node.splits fault.splits sum.splits)

lemma shutil_copy2_missing:
  "fs src = None \<Longrightarrow> \<exists>e. shutil_copy2 ev src dst fs = (Inl e, fs)"
  by (simp add: shutil_copy2_def open_rb_def Let_def)

lemma priv_move_backup_success:
  assumes "win32 ev \<and> os_path_exists ev target fs"
    and "priv_move ev source target fs = (Inr (), fs')"
  shows "\<exists>fs1 fs2 r. os_rename ev target (target @ ''.old'') fs = (Inr (), fs1) \<and>
           os_rename ev source target fs1 = (Inr (), fs2) \<and>
           os_unlink ev (target @ ''.old'') fs2 = (r, fs')"
  using assms
  by (auto simp add: priv_move_def split: prod.splits sum.splits if_splits)

lemma priv_copy_backup_success:
  assumes "win32 ev \<and> os_path_exists ev target fs"
    and "priv_copy ev source target fs = (Inr (), fs')"
  shows "\<exists>fs1 fs2 r. os_rename ev target (target @ ''.old'') fs = (Inr (), fs1) \<and>
           shutil_copy2 ev source target fs1 = (Inr (), fs2) \<and>
           os_unlink ev (target @ ''.old'') fs2 = (r, fs')"
  using assms
  by (auto simp add: priv_copy_def split: prod.splits sum.splits if_splits)

lemma replace_after_backup:
  assumes w: "win32 ev" and t: "fs target = Some (File c0)"
    and backup: "os_rename ev target (target @ ''.old'') fs = (Inr (), fs1)"
    and written: "fs2 = fs1(target \<mapsto> File c) \<or> fs2 = (fs1(source := None))(target \<mapsto> File c)"
    and s: "source \<noteq> target @ ''.old''"
    and cleanup: "os_unlink ev (target @ ''.old'') fs2 = (r, fs')"
  shows "fs' target = Some (File c) \<and>
         (faults ev (Unlink (target @ ''.old'')) = None \<longrightarrow> fs' (target @ ''.old'') = None)"
proof -
  from os_rename_backup [of ev fs target c0 fs1] w t backup
  have fs1: "fs1 = (fs(target := None))(target @ ''.old'' \<mapsto> File c0)"
    by simp
  with written s have old: "fs2 (target @ ''.old'') = Some (File c0)"
    and new: "fs2 target = Some (File c)"
    by auto
  from os_unlink_cases [of ev "target @ ''.old''" fs2 r fs'] cleanup new
  have "fs' target = Some (File c)"
    by auto
  moreover have "fs' (target @ ''.old'') = None" if "faults ev (Unlink (target @ ''.old'')) = None"
    using os_unlink_file [of fs2 "target @ ''.old''" c0 ev] old that cleanup by simp
  ultimately show ?thesis
    by simp
qed

lemmas eval_calls = priv_move_def priv_copy_def os_path_exists_def stat_node_def os_rename_def
  os_unlink_def shutil_copy2_def copy2_target_def os_path_isdir_def open_rb_def move_node_def
  under_def is_sep_def Let_def




text \<open>
  C5, as the code has it. After a successful \<^verbatim>\<open>_move\<close> or \<^verbatim>\<open>_copy\<close> of a file onto an
  existing file, the target holds the bytes that the source held before the call. No
  backup file remains, provided that none was there before the call and that the plan does
  not refuse the removal of the backup: the code swallows a failed removal.
\<close>

theorem successful_replace:
  "(fs target = Some (File c0) \<and> fs source = Some (File c) \<and>
      priv_move ev source target fs = (Inr (), fs') \<longrightarrow>
      fs' target = Some (File c) \<and>
      (fs (target @ ''.old'') = None \<and> faults ev (Unlink (target @ ''.old'')) = None \<longrightarrow>
         fs' (target @ ''.old'') = None)) \<and>
   (fs target = Some (File c0) \<and> fs source = Some (File c) \<and>
      priv_copy ev source target fs = (Inr (), fs') \<longrightarrow>
      fs' target = Some (File c) \<and>
      (fs (target @ ''.old'') = None \<and> faults ev (Unlink (target @ ''.old'')) = None \<longrightarrow>
         fs' (target @ ''.old'') = None))"
proof (rule conjI; rule impI)
  assume a: "fs target = Some (File c0) \<and> fs source = Some (File c) \<and>
      priv_move ev source target fs = (Inr (), fs')"
  show "fs' target = Some (File c) \<and>
      (fs (target @ ''.old'') = None \<and> faults ev (Unlink (target @ ''.old'')) = None \<longrightarrow>
         fs' (target @ ''.old'') = None)"
  proof (cases "win32 ev \<and> os_path_exists ev target fs")
    case True
    with a priv_move_backup_success [of ev target fs source fs'] obtain fs1 fs2 r where
      backup: "os_rename ev target (target @ ''.old'') fs = (Inr (), fs1)" and
      applied: "os_rename ev source target fs1 = (Inr (), fs2)" and
      cleanup: "os_unlink ev (target @ ''.old'') fs2 = (r, fs')"
      by blast
    from True a os_rename_backup [of ev fs target c0 fs1] backup
    have fs1: "fs (target @ ''.old'') = None"
      "fs1 = (fs(target := None))(target @ ''.old'' \<mapsto> File c0)"
      by simp_all
    with a have s: "source \<noteq> target @ ''.old''"
      by auto
    have "source \<noteq> target"
    proof
      assume "source = target"
      with fs1 have "fs1 source = None"
        by simp
      with os_rename_missing [of fs1 source ev target] applied show False
        by simp
    qed
    with fs1 s a have "fs1 source = Some (File c)"
      by simp
    with os_rename_file_success [of ev source target fs1 fs2 c] applied
    have "fs2 = fs1(target \<mapsto> File c) \<or> fs2 = (fs1(source := None))(target \<mapsto> File c)"
      by simp
    with replace_after_backup [of ev fs target c0 fs1 fs2 c source r fs'] backup s cleanup
      True a
    show ?thesis
      by simp
  next
    case False
    with a have "os_rename ev source target fs = (Inr (), fs')"
      by (auto simp add: priv_move_def)
    with os_rename_file_success [of ev source target fs fs' c] a
    have "fs' = (fs(source := None))(target \<mapsto> File c)"
      by simp
    then show ?thesis
      by simp
  qed
next
  assume a: "fs target = Some (File c0) \<and> fs source = Some (File c) \<and>
      priv_copy ev source target fs = (Inr (), fs')"
  show "fs' target = Some (File c) \<and>
      (fs (target @ ''.old'') = None \<and> faults ev (Unlink (target @ ''.old'')) = None \<longrightarrow>
         fs' (target @ ''.old'') = None)"
  proof (cases "win32 ev \<and> os_path_exists ev target fs")
    case True
    with a priv_copy_backup_success [of ev target fs source fs'] obtain fs1 fs2 r where
      backup: "os_rename ev target (target @ ''.old'') fs = (Inr (), fs1)" and
      applied: "shutil_copy2 ev source target fs1 = (Inr (), fs2)" and
      cleanup: "os_unlink ev (target @ ''.old'') fs2 = (r, fs')"
      by blast
    from True a os_rename_backup [of ev fs target c0 fs1] backup
    have fs1: "fs (target @ ''.old'') = None"
      "fs1 = (fs(target := None))(target @ ''.old'' \<mapsto> File c0)"
      by simp_all
    with a have s: "source \<noteq> target @ ''.old''"
      by auto
    have "source \<noteq> target"
    proof
      assume "source = target"
      with fs1 have "fs1 source = None"
        by simp
      with shutil_copy2_missing [of fs1 source ev target] applied show False
        by auto
    qed
    with fs1 s a have src: "fs1 source = Some (File c)"
      by simp
    from fs1 have "\<forall>k. fs1 target \<noteq> Some (Dir k)"
      by simp
    with shutil_copy2_file_success [of ev source target fs1 fs2 c] applied src
    have "fs2 = fs1(target \<mapsto> File c) \<or> fs2 = (fs1(source := None))(target \<mapsto> File c)"
      by simp
    with replace_after_backup [of ev fs target c0 fs1 fs2 c source r fs'] backup s cleanup
      True a
    show ?thesis
      by simp
  next
    case False
    with a have "shutil_copy2 ev source target fs = (Inr (), fs')"
      by (auto simp add: priv_copy_def)
    with shutil_copy2_file_success [of ev source target fs fs' c] a
    have "fs' = fs(target \<mapsto> File c)"
      by simp
    then show ?thesis
      by simp
  qed
qed

theorem successful_replace_witness:
  "snd (priv_move \<lparr>win32 = True, faults = Map.empty\<rparr> ''s'' ''t''
          [''s'' \<mapsto> File ''hello'', ''t'' \<mapsto> File ''world'']) ''t'' = Some (File ''hello'') \<and>
   snd (priv_move \<lparr>win32 = True, faults = Map.empty\<rparr> ''s'' ''t''
          [''s'' \<mapsto> File ''hello'', ''t'' \<mapsto> File ''world'']) ''t.old'' = None \<and>
   snd (priv_copy \<lparr>win32 = True, faults = Map.empty\<rparr> ''s'' ''t''
          [''s'' \<mapsto> File ''hello'', ''t'' \<mapsto> File ''world'']) ''t'' = Some (File ''hello'') \<and>
   snd (priv_copy \<lparr>win32 = True, faults = Map.empty\<rparr> ''s'' ''t''
          [''s'' \<mapsto> File ''hello'', ''t'' \<mapsto> File ''world'']) ''t.old'' = None"
proof -
  have m: "priv_move \<lparr>win32 = True, faults = Map.empty\<rparr> ''s'' ''t''
      [''s'' \<mapsto> File ''hello'', ''t'' \<mapsto> File ''world''] = (Inr (), [''t'' \<mapsto> File ''hello''])"
    by (simp add: eval_calls fun_eq_iff)
  have c: "priv_copy \<lparr>win32 = True, faults = Map.empty\<rparr> ''s'' ''t''
      [''s'' \<mapsto> File ''hello'', ''t'' \<mapsto> File ''world'']
      = (Inr (), [''s'' \<mapsto> File ''hello'', ''t'' \<mapsto> File ''hello''])"
    by (simp add: eval_calls fun_eq_iff)
  from successful_replace [of "[''s'' \<mapsto> File ''hello'', ''t'' \<mapsto> File ''world'']" "''t''"
      "''world''" "''s''" "''hello''" "\<lparr>win32 = True, faults = Map.empty\<rparr>"
      "[''t'' \<mapsto> File ''hello'']"] m
  have "snd (priv_move \<lparr>win32 = True, faults = Map.empty\<rparr> ''s'' ''t''
          [''s'' \<mapsto> File ''hello'', ''t'' \<mapsto> File ''world'']) ''t'' = Some (File ''hello'') \<and>
   snd (priv_move \<lparr>win32 = True, faults = Map.empty\<rparr> ''s'' ''t''
          [''s'' \<mapsto> File ''hello'', ''t'' \<mapsto> File ''world'']) ''t.old'' = None"
    by simp
  moreover
  from successful_replace [of "[''s'' \<mapsto> File ''hello'', ''t'' \<mapsto> File ''world'']" "''t''"
      "''world''" "''s''" "''hello''" "\<lparr>win32 = True, faults = Map.empty\<rparr>"
      "[''s'' \<mapsto> File ''hello'', ''t'' \<mapsto> File ''hello'']"] c
  have "snd (priv_copy \<lparr>win32 = True, faults = Map.empty\<rparr> ''s'' ''t''
          [''s'' \<mapsto> File ''hello'', ''t'' \<mapsto> File ''world'']) ''t'' = Some (File ''hello'') \<and>
   snd (priv_copy \<lparr>win32 = True, faults = Map.empty\<rparr> ''s'' ''t''
          [''s'' \<mapsto> File ''hello'', ''t'' \<mapsto> File ''world'']) ''t.old'' = None"
    by simp
  ultimately show ?thesis
    by simp
qed

text \<open>
  C5, as the claim states it, fails in two ways. On win32, when the removal of the backup
  is refused, the move succeeds and the backup file stays. Off win32 the code takes no
  backup and touches no backup file: one that was there before a successful copy is still
  there.
\<close>

theorem leftover_backup_counterexample:
  "priv_move \<lparr>win32 = True, faults = [Unlink ''t.old'' \<mapsto> Deny]\<rparr> ''s'' ''t''
       [''s'' \<mapsto> File ''hello'', ''t'' \<mapsto> File ''world'']
     = (Inr (), [''t'' \<mapsto> File ''hello'', ''t.old'' \<mapsto> File ''world'']) \<and>
   priv_copy \<lparr>win32 = False, faults = Map.empty\<rparr> ''s'' ''t''
       [''s'' \<mapsto> File ''hello'', ''t'' \<mapsto> File ''world'', ''t.old'' \<mapsto> File ''stale'']
     = (Inr (), [''s'' \<mapsto> File ''hello'', ''t'' \<mapsto> File ''hello'',
          ''t.old'' \<mapsto> File ''stale''])"
  by (simp add: eval_calls fun_eq_iff)

end
